theory Spec2Isabelle
  imports Main "HOL-Library.Sublist"
begin

section \<open>Data model\<close>

text \<open>
  JavaScript values, as far as world.js and helpers.js look at them: \<open>undefined\<close>,
  \<open>null\<close>, a driver object (identified by the session it controls), an opaque
  library object (selenium, chai, the trace function) and a plain object standing for the
  page and shared containers (its keys).
\<close>

datatype jsval = JUndefined | JNull | JDriver nat | JLib string | JObj "string list"

fun truthy :: "jsval \<Rightarrow> bool" where
  "truthy JUndefined = False"
| "truthy JNull = False"
| "truthy _ = True"

text \<open>The operator \<open>a || b\<close> on such values.\<close>

definition js_or :: "jsval \<Rightarrow> jsval \<Rightarrow> jsval" where
  "js_or a b = (if truthy a then a else b)"

text \<open>Capabilities handed to \<open>selenium.Builder().withCapabilities\<close>.\<close>

datatype capval = CBool bool | CStr string | CArgs "string list" | CObj "(string \<times> capval) list"

datatype sstatus = Live | WindowClosed | Quitted

record session =
  caps :: "(string \<times> capval) list"
  maximized :: bool
  status :: sstatus

datatype error =
    UnknownDriverError string
  | DriverLoadError string
  | TypeError string
  | SessionError nat
  | ReportGenerationError string
  | WaitTimeoutError string
  | NoSuchElementError string

text \<open>
  Everything the hooks do to the outside world, in the order in which they do it:
  commands sent to a session, attachments to the scenario, report files, the runner's
  \<open>done\<close> callback. \<open>ScenarioSteps v\<close> stands for the steps of one scenario running with
  \<open>global.driver = v\<close>.
\<close>

datatype event =
    Build nat
  | Maximize nat
  | Require string
  | ScenarioSteps jsval
  | TakeScreenshot nat
  | Attach nat string
  | DeleteAllCookies nat
  | ClearStorages nat
  | EyesAbort
  | Close nat
  | Quit nat
  | GenerateHtmlReport string string
  | WriteJUnitReport string
  | Done

text \<open>
  The process-wide configuration that index.js sets as globals before world.js is
  loaded (\<open>browserName\<close>, \<open>browserTeardownStrategy\<close>, \<open>DEFAULT_TIMEOUT\<close>, ...).
\<close>

record config =
  browserName :: string
  browserTeardownStrategy :: string
  noScreenshot :: bool
  reportsPath :: string
  junitPath :: string
  DEFAULT_TIMEOUT :: int

text \<open>
  The environment outside the repository: the file system, Node's \<open>path.resolve\<close>,
  what \<open>require(file)()\<close> yields for a custom driver file, and the binary paths the
  driver packages export.
\<close>

record env =
  cwd :: string
  path_resolve :: "string \<Rightarrow> string \<Rightarrow> string"
  isFileSync :: "string \<Rightarrow> bool"
  existsSync :: "string \<Rightarrow> bool"
  readFileSync :: "string \<Rightarrow> string option"
  require_call :: "string \<Rightarrow> error + session"
  chromedriver_path :: string
  geckodriver_path :: string
  phantomjs_path :: string

text \<open>
  The state of world.js: its module variables \<open>driver\<close> and \<open>eyes\<close>, the global object,
  the sessions built so far (a driver object is the index of its session) and the
  events so far.
\<close>

record world =
  driver :: jsval
  eyes :: jsval
  globals :: "string \<Rightarrow> jsval"
  sessions :: "session list"
  events :: "event list"

definition initial_world :: world where
  "initial_world = \<lparr>driver = JUndefined, eyes = JUndefined, globals = (\<lambda>_. JUndefined),
     sessions = [], events = []\<rparr>"

definition emit :: "event list \<Rightarrow> world \<Rightarrow> world" where
  "emit es w = w\<lparr>events := events w @ es\<rparr>"

definition is_live :: "world \<Rightarrow> nat \<Rightarrow> bool" where
  "is_live w h = (h < length (sessions w) \<and> status (sessions w ! h) = Live)"

definition set_status :: "nat \<Rightarrow> sstatus \<Rightarrow> world \<Rightarrow> world" where
  "set_status h st w =
     (if h < length (sessions w)
      then w\<lparr>sessions := (sessions w)[h := (sessions w ! h)\<lparr>status := st\<rparr>]\<rparr>
      else w)"

section \<open>world.js: createWorld\<close>

text \<open>The \<open>runtime\<close> object literal of createWorld, in key order.\<close>

definition runtime :: "world \<Rightarrow> (string \<times> jsval) list" where
  "runtime w =
    [(''driver'', JNull),
     (''eyes'', JNull),
     (''selenium'', JLib ''selenium''),
     (''By'', JLib ''selenium.By''),
     (''by'', JLib ''selenium.By''),
     (''until'', JLib ''selenium.until''),
     (''expect'', JLib ''chai.expect''),
     (''assert'', JLib ''chai.assert''),
     (''trace'', JLib ''consoleInfo''),
     (''page'', js_or (globals w ''page'') (JObj [])),
     (''shared'', js_or (globals w ''shared'') (JObj []))]"

text \<open>One round of the \<open>Object.keys(runtime).forEach\<close> callback.\<close>

definition expose :: "config \<Rightarrow> world \<Rightarrow> string \<times> jsval \<Rightarrow> world" where
  "expose c w kv =
     (if fst kv = ''driver'' \<and> browserTeardownStrategy c \<noteq> ''always'' then w
      else w\<lparr>globals := (globals w)(fst kv := snd kv)\<rparr>)"

definition createWorld :: "config \<Rightarrow> world \<Rightarrow> world" where
  "createWorld c w = foldl (expose c) w (runtime w)"

section \<open>Driver factories\<close>

text \<open>\<open>new selenium.Builder().withCapabilities(cs).build()\<close>: a fresh live session.\<close>

definition build :: "(string \<times> capval) list \<Rightarrow> world \<Rightarrow> nat \<times> world" where
  "build cs w =
     (length (sessions w),
      emit [Build (length (sessions w))]
        (w\<lparr>sessions := sessions w @ [\<lparr>caps = cs, maximized = False, status = Live\<rparr>]\<rparr>))"

text \<open>\<open>driver.manage().window().maximize()\<close>\<close>

definition maximize :: "nat \<Rightarrow> world \<Rightarrow> world" where
  "maximize h w =
     emit [Maximize h]
       (if h < length (sessions w)
        then w\<lparr>sessions := (sessions w)[h := (sessions w ! h)\<lparr>maximized := True\<rparr>]\<rparr>
        else w)"

text \<open>\<open>Builder.forBrowser(name)\<close> sets the \<open>browserName\<close> capability.\<close>

definition forBrowser :: "string \<Rightarrow> (string \<times> capval) list \<Rightarrow> (string \<times> capval) list" where
  "forBrowser name cs = (''browserName'', CStr name) # filter (\<lambda>kv. fst kv \<noteq> ''browserName'') cs"

text \<open>chromeDriver.js\<close>

definition ChromeDriver :: "env \<Rightarrow> world \<Rightarrow> nat \<times> world" where
  "ChromeDriver e w =
     (let (h, w1) = build
        [(''browserName'', CStr ''chrome''),
         (''javascriptEnabled'', CBool True),
         (''acceptSslCerts'', CBool True),
         (''chromeOptions'', CObj [(''args'', CArgs [''start-maximized'', ''disable-extensions''])]),
         (''path'', CStr (chromedriver_path e))] w
      in (h, maximize h w1))"

text \<open>firefoxDriver.js\<close>

definition FireFoxDriver :: "env \<Rightarrow> world \<Rightarrow> nat \<times> world" where
  "FireFoxDriver e w =
     (let (h, w1) = build
        [(''browserName'', CStr ''firefox''),
         (''javascriptEnabled'', CBool True),
         (''acceptSslCerts'', CBool True),
         (''webdriver.firefox.bin'', CStr (geckodriver_path e))] w
      in (h, maximize h w1))"

text \<open>phantomDriver.js\<close>

definition PhantomJSDriver :: "env \<Rightarrow> world \<Rightarrow> nat \<times> world" where
  "PhantomJSDriver e w =
     (let (h, w1) = build
        [(''browserName'', CStr ''phantomjs''),
         (''javascriptEnabled'', CBool True),
         (''acceptSslCerts'', CBool True),
         (''phantomjs.binary.path'', CStr (phantomjs_path e)),
         (''phantomjs.cli.args'', CStr ''--ignore-ssl-errors=true'')] w
      in (h, maximize h w1))"

text \<open>electronDriver.js: only the binary and the browser name; no maximize call.\<close>

definition ElectronDriver :: "env \<Rightarrow> world \<Rightarrow> nat \<times> world" where
  "ElectronDriver e w =
     build (forBrowser ''electron''
       [(''chromeOptions'',
         CObj [(''binary'', CStr (path_resolve e (cwd e) ''MyApp.app/Contents/MacOS/MyApp''))])]) w"


section \<open>world.js: getDriverInstance\<close>

text \<open>A driver object returned by a custom factory is a session of its own.\<close>

definition install :: "session \<Rightarrow> world \<Rightarrow> nat \<times> world" where
  "install s w = (length (sessions w), w\<lparr>sessions := sessions w @ [s]\<rparr>)"

text \<open>The tail of getDriverInstance: \<open>global.driver = driver; return global.driver\<close>.\<close>

definition publish :: "nat \<times> world \<Rightarrow> error + jsval \<times> world" where
  "publish hw =
     Inr (JDriver (fst hw),
          (snd hw)\<lparr>driver := JDriver (fst hw),
                   globals := (globals (snd hw))(''driver'' := JDriver (fst hw))\<rparr>)"

definition getDriverInstance :: "config \<Rightarrow> env \<Rightarrow> world \<Rightarrow> error + jsval \<times> world" where
  "getDriverInstance c e w =
     (if browserName c = ''firefox'' then publish (FireFoxDriver e w)
      else if browserName c = ''phantomjs'' then publish (PhantomJSDriver e w)
      else if browserName c = ''electron'' then publish (ElectronDriver e w)
      else if browserName c = ''chrome'' then publish (ChromeDriver e w)
      else
        (let driverFileName = path_resolve e (cwd e) (browserName c) in
         if \<not> isFileSync e driverFileName
         then Inl (UnknownDriverError (''Could not find driver file: '' @ driverFileName))
         else (case require_call e driverFileName of
                 Inl err \<Rightarrow> Inl err
               | Inr s \<Rightarrow> publish (install s (emit [Require driverFileName] w)))))"

section \<open>helpers.js: cookies and storages\<close>

text \<open>
  In helpers.js the name \<open>driver\<close> is the global one. A call on something that is not a
  driver object throws a TypeError; a command sent to a session is recorded, and nobody
  waits for its result.
\<close>

definition clearCookies :: "world \<Rightarrow> error + world" where
  "clearCookies w =
     (case globals w ''driver'' of
        JDriver h \<Rightarrow> Inr (emit [DeleteAllCookies h] w)
      | _ \<Rightarrow> Inl (TypeError ''driver.manage''))"

definition clearStorages :: "world \<Rightarrow> error + world" where
  "clearStorages w =
     (case globals w ''driver'' of
        JDriver h \<Rightarrow> Inr (emit [ClearStorages h] w)
      | _ \<Rightarrow> Inl (TypeError ''driver.executeScript''))"

text \<open>
  \<open>helpers.clearCookies().then(helpers.clearStorages())\<close>: clearCookies is called, then
  the argument clearStorages() is evaluated.
\<close>

definition clearCookiesAndStorages :: "world \<Rightarrow> error + world" where
  "clearCookiesAndStorages w =
     (case clearCookies w of Inl err \<Rightarrow> Inl err | Inr w1 \<Rightarrow> clearStorages w1)"

section \<open>world.js: the hooks\<close>

text \<open>
  closeBrowser: \<open>driver.close()\<close>, then \<open>driver.quit()\<close> unless the browser is firefox.
  Here \<open>driver\<close> is the module variable. Closing a session that is not live rejects.
\<close>

definition closeBrowser :: "config \<Rightarrow> world \<Rightarrow> error + world" where
  "closeBrowser c w =
     (case driver w of
        JDriver h \<Rightarrow>
          if is_live w h then
            (let w1 = set_status h WindowClosed (emit [Close h] w) in
             if browserName c \<noteq> ''firefox''
             then Inr (set_status h Quitted (emit [Quit h] w1))
             else Inr w1)
          else Inl (SessionError h)
      | _ \<Rightarrow> Inl (TypeError ''driver.close''))"

text \<open>teardownBrowser: the call of closeBrowser is commented out in the source.\<close>

definition teardownBrowser :: "world \<Rightarrow> error + world" where
  "teardownBrowser w = clearCookiesAndStorages w"

text \<open>The handler registered for BeforeScenario.\<close>

definition BeforeScenario :: "config \<Rightarrow> env \<Rightarrow> world \<Rightarrow> error + world" where
  "BeforeScenario c e w =
     (if \<not> truthy (driver w) then
        (case getDriverInstance c e w of
           Inl err \<Rightarrow> Inl err
         | Inr vw \<Rightarrow> Inr ((snd vw)\<lparr>globals := (globals (snd vw))(''driver'' := fst vw)\<rparr>))
      else Inr (w\<lparr>globals := (globals w)(''driver'' := driver w)\<rparr>))"

text \<open>The After hook; \<open>failed\<close> is \<open>scenario.isFailed()\<close>.\<close>

definition After :: "config \<Rightarrow> bool \<Rightarrow> world \<Rightarrow> error + world" where
  "After c failed w =
     (if failed \<and> \<not> noScreenshot c then
        (case globals w ''driver'' of
           JDriver h \<Rightarrow>
             if is_live w h then
               (case clearCookiesAndStorages
                       (emit [TakeScreenshot h, Attach h ''image/png''] w) of
                  Inl err \<Rightarrow> Inl err
                | Inr w2 \<Rightarrow>
                   (case teardownBrowser w2 of
                      Inl err \<Rightarrow> Inl err
                    | Inr w3 \<Rightarrow> Inr (if truthy (eyes w3) then emit [EyesAbort] w3 else w3)))
             else Inl (SessionError h)
         | _ \<Rightarrow> Inl (TypeError ''driver.takeScreenshot''))
      else teardownBrowser w)"

text \<open>
  The report block of the AfterFeatures handler. Reading the JSON report throws when the
  file is missing.
\<close>

definition generateReports :: "config \<Rightarrow> env \<Rightarrow> world \<Rightarrow> error + world" where
  "generateReports c e w =
     (let cucumberReportPath = path_resolve e (reportsPath c) ''cucumber-report.json'' in
      if reportsPath c \<noteq> [] \<and> existsSync e (reportsPath c) then
        (case readFileSync e cucumberReportPath of
           None \<Rightarrow> Inl (ReportGenerationError cucumberReportPath)
         | Some reportRaw \<Rightarrow>
             Inr (emit [GenerateHtmlReport cucumberReportPath
                          (path_resolve e (reportsPath c) ''cucumber-report.html''),
                        WriteJUnitReport (path_resolve e (junitPath c) ''junit-report.xml'')] w))
      else Inr w)"

text \<open>The handler registered for AfterFeatures.\<close>

definition AfterFeatures :: "config \<Rightarrow> env \<Rightarrow> world \<Rightarrow> error + world" where
  "AfterFeatures c e w =
     (case generateReports c e w of
        Inl err \<Rightarrow> Inl err
      | Inr w1 \<Rightarrow>
          if browserTeardownStrategy c \<noteq> ''always'' then
            (case closeBrowser c w1 of
               Inl err \<Rightarrow> Inl err
             | Inr w2 \<Rightarrow> Inr (emit [Done] w2))
          else Inr (emit [Done] w1))"

section \<open>The runner\<close>

text \<open>
  Modelled from the spec: the runner (cucumber), which is not in the repository, and its
  order of hooks (section 5). It builds the World for a scenario
  (\<open>this.World = createWorld\<close>), fires BeforeScenario, runs the steps, then the After
  hook, one scenario at a time; AfterFeatures comes once at the end. The steps are
  opaque: they see \<open>global.driver\<close>, end failed or passed, and neither create nor destroy
  a session.
\<close>

definition scenario :: "config \<Rightarrow> env \<Rightarrow> bool \<Rightarrow> world \<Rightarrow> error + world" where
  "scenario c e failed w =
     (case BeforeScenario c e (createWorld c w) of
        Inl err \<Rightarrow> Inl err
      | Inr w1 \<Rightarrow> After c failed (emit [ScenarioSteps (globals w1 ''driver'')] w1))"

fun run_scenarios :: "config \<Rightarrow> env \<Rightarrow> bool list \<Rightarrow> world \<Rightarrow> error + world" where
  "run_scenarios c e [] w = Inr w"
| "run_scenarios c e (failed # rest) w =
     (case scenario c e failed w of
        Inl err \<Rightarrow> Inl err
      | Inr w1 \<Rightarrow> run_scenarios c e rest w1)"

text \<open>Loading world.js calls createWorld once; then the scenarios; then AfterFeatures.\<close>

definition run :: "config \<Rightarrow> env \<Rightarrow> bool list \<Rightarrow> world \<Rightarrow> error + world" where
  "run c e outcomes w =
     (case run_scenarios c e outcomes (createWorld c w) of
        Inl err \<Rightarrow> Inl err
      | Inr w1 \<Rightarrow> AfterFeatures c e w1)"

text \<open>Observations on the event list.\<close>

fun is_teardown :: "event \<Rightarrow> bool" where
  "is_teardown (Close h) = True"
| "is_teardown (Quit h) = True"
| "is_teardown _ = False"

fun is_close :: "event \<Rightarrow> bool" where
  "is_close (Close h) = True"
| "is_close _ = False"

text \<open>The values of \<open>global.driver\<close> that the scenarios' steps ran with, in order.\<close>

fun published :: "event list \<Rightarrow> jsval list" where
  "published [] = []"
| "published (ScenarioSteps v # es) = v # published es"
| "published (ev # es) = published es"

section \<open>helpers.js: the waits\<close>

text \<open>
  An optional numeric argument: \<open>None\<close> is an argument left out (\<open>undefined\<close>).
  \<open>w || d\<close> takes \<open>d\<close> when \<open>w\<close> is undefined or 0.
\<close>

definition num_or :: "int option \<Rightarrow> int \<Rightarrow> int" where
  "num_or w d = (case w of None \<Rightarrow> d | Some n \<Rightarrow> if n = 0 then d else n)"

text \<open>How string concatenation prints an integer, and \<open>undefined\<close>.\<close>

fun string_of_nat :: "nat \<Rightarrow> string" where
  "string_of_nat n =
     (if n < 10 then [''0123456789'' ! n]
      else string_of_nat (n div 10) @ [''0123456789'' ! (n mod 10)])"

definition string_of_int :: "int \<Rightarrow> string" where
  "string_of_int n = (if n < 0 then ''-'' @ string_of_nat (nat (- n)) else string_of_nat (nat n))"

definition js_toString :: "int option \<Rightarrow> string" where
  "js_toString w = (case w of None \<Rightarrow> ''undefined'' | Some n \<Rightarrow> string_of_int n)"

text \<open>
  A page maps a CSS selector to the element it finds, if any; an element maps an
  attribute name to its value (\<open>None\<close> is \<open>null\<close>). The browser under test is a page
  and a list of window handles for every moment (in milliseconds) of a wait, and the
  time one round trip of a poll takes beyond one millisecond.
\<close>

type_synonym page = "string \<Rightarrow> (string \<Rightarrow> string option) option"

record browser =
  page_at :: "int \<Rightarrow> page"
  windows_at :: "int \<Rightarrow> error + string list"
  poll_cost :: nat

definition getAttributeValue :: "page \<Rightarrow> string \<Rightarrow> string \<Rightarrow> error + string option" where
  "getAttributeValue p htmlCssSelector attributeName =
     (case p htmlCssSelector of
        None \<Rightarrow> Inl (NoSuchElementError htmlCssSelector)
      | Some el \<Rightarrow> Inr (el attributeName))"

text \<open>The three arguments a helper hands to \<open>driver.wait\<close>.\<close>

record wait_descriptor =
  wd_condition :: "page \<Rightarrow> error + bool"
  wd_timeout :: int
  wd_message :: string

datatype wait_outcome = Resolved | Rejected error

text \<open>
  Modelled from the spec: \<open>driver.wait(condition, timeout, message)\<close>, which belongs to
  selenium-webdriver and is not in the repository (the Wait Engine of section 4.2). It
  polls the condition until it holds or the timeout has elapsed, and then fails with a
  timeout error carrying the message; a condition that rejects ends the wait with its
  own error. A poll started at \<open>t\<close> ms is over at \<open>t + 1 + poll_cost\<close> ms.
\<close>

function driver_wait_from :: "browser \<Rightarrow> wait_descriptor \<Rightarrow> int \<Rightarrow> wait_outcome" where
  "driver_wait_from b d t =
     (case wd_condition d (page_at b t) of
        Inl err \<Rightarrow> Rejected err
      | Inr ok \<Rightarrow>
          if ok then Resolved
          else if wd_timeout d \<le> t + 1 + int (poll_cost b)
          then Rejected (WaitTimeoutError (wd_message d))
          else driver_wait_from b d (t + 1 + int (poll_cost b)))"
  by pat_completeness auto
termination
  by (relation "measure (\<lambda>(b, d, t). nat (wd_timeout d - t))") auto

definition driver_wait :: "browser \<Rightarrow> wait_descriptor \<Rightarrow> wait_outcome" where
  "driver_wait b d = driver_wait_from b d 0"

definition map_result :: "('a \<Rightarrow> 'b) \<Rightarrow> error + 'a \<Rightarrow> error + 'b" where
  "map_result f r = (case r of Inl err \<Rightarrow> Inl err | Inr v \<Rightarrow> Inr (f v))"

definition waitUntilAttributeEquals_args ::
  "config \<Rightarrow> string \<Rightarrow> string \<Rightarrow> string \<Rightarrow> int option \<Rightarrow> wait_descriptor" where
  "waitUntilAttributeEquals_args c elementSelector attributeName attributeValue waitInMilliseconds =
     \<lparr>wd_condition = (\<lambda>p. map_result (\<lambda>v. v = Some attributeValue)
                             (getAttributeValue p elementSelector attributeName)),
      wd_timeout = num_or waitInMilliseconds (DEFAULT_TIMEOUT c),
      wd_message = attributeName @ '' does not equal '' @ attributeValue @ '' after '' @
                   js_toString waitInMilliseconds @ '' milliseconds''\<rparr>"

definition waitUntilAttributeEquals ::
  "config \<Rightarrow> browser \<Rightarrow> string \<Rightarrow> string \<Rightarrow> string \<Rightarrow> int option \<Rightarrow> wait_outcome" where
  "waitUntilAttributeEquals c b elementSelector attributeName attributeValue waitInMilliseconds =
     driver_wait b (waitUntilAttributeEquals_args c elementSelector attributeName attributeValue
                      waitInMilliseconds)"

definition waitUntilAttributeExists_args ::
  "config \<Rightarrow> string \<Rightarrow> string \<Rightarrow> int option \<Rightarrow> wait_descriptor" where
  "waitUntilAttributeExists_args c elementSelector attributeName waitInMilliseconds =
     \<lparr>wd_condition = (\<lambda>p. map_result (\<lambda>v. v \<noteq> None)
                             (getAttributeValue p elementSelector attributeName)),
      wd_timeout = num_or waitInMilliseconds (DEFAULT_TIMEOUT c),
      wd_message = attributeName @ '' does not exists after '' @
                   js_toString waitInMilliseconds @ '' milliseconds''\<rparr>"

definition waitUntilAttributeExists ::
  "config \<Rightarrow> browser \<Rightarrow> string \<Rightarrow> string \<Rightarrow> int option \<Rightarrow> wait_outcome" where
  "waitUntilAttributeExists c b elementSelector attributeName waitInMilliseconds =
     driver_wait b (waitUntilAttributeExists_args c elementSelector attributeName waitInMilliseconds)"

definition waitUntilAttributeDoesNotExists_args ::
  "config \<Rightarrow> string \<Rightarrow> string \<Rightarrow> int option \<Rightarrow> wait_descriptor" where
  "waitUntilAttributeDoesNotExists_args c elementSelector attributeName waitInMilliseconds =
     \<lparr>wd_condition = (\<lambda>p. map_result (\<lambda>v. v = None)
                             (getAttributeValue p elementSelector attributeName)),
      wd_timeout = num_or waitInMilliseconds (DEFAULT_TIMEOUT c),
      wd_message = attributeName @ '' still exists after '' @
                   js_toString waitInMilliseconds @ '' milliseconds''\<rparr>"

definition waitUntilAttributeDoesNotExists ::
  "config \<Rightarrow> browser \<Rightarrow> string \<Rightarrow> string \<Rightarrow> int option \<Rightarrow> wait_outcome" where
  "waitUntilAttributeDoesNotExists c b elementSelector attributeName waitInMilliseconds =
     driver_wait b (waitUntilAttributeDoesNotExists_args c elementSelector attributeName
                      waitInMilliseconds)"

text \<open>
  waitForNewWindows: the loop \<open>for (i = 0; i < timeout; i += 1000)\<close>. Each round reads the
  window handles, returns them when there is more than one, and otherwise sleeps 1000 ms;
  \<open>clock\<close> is the time slept so far. Falling out of the loop returns \<open>undefined\<close>
  (\<open>None\<close>). A rejected \<open>getAllWindowHandles\<close> rejects the helper.
\<close>

function waitForNewWindows_loop ::
  "browser \<Rightarrow> int \<Rightarrow> int \<Rightarrow> int \<Rightarrow> error + string list option" where
  "waitForNewWindows_loop b timeout i clock =
     (if i < timeout then
        (case windows_at b clock of
           Inl err \<Rightarrow> Inl err
         | Inr windows \<Rightarrow>
             if length windows > 1 then Inr (Some windows)
             else waitForNewWindows_loop b timeout (i + 1000) (clock + 1000))
      else Inr None)"
  by pat_completeness auto
termination
  by (relation "measure (\<lambda>(b, timeout, i, clock). nat (timeout - i))") auto

definition waitForNewWindows :: "config \<Rightarrow> browser \<Rightarrow> int option \<Rightarrow> error + string list option" where
  "waitForNewWindows c b waitInMilliseconds =
     waitForNewWindows_loop b (num_or waitInMilliseconds (DEFAULT_TIMEOUT c)) 0 0"

section \<open>Concrete inputs\<close>

definition example_config :: config where
  "example_config =
     \<lparr>browserName = ''chrome'', browserTeardownStrategy = ''once'', noScreenshot = False,
      reportsPath = ''reports'', junitPath = ''junit'', DEFAULT_TIMEOUT = 10000\<rparr>"

definition example_env :: env where
  "example_env =
     \<lparr>cwd = ''/work'',
      path_resolve = (\<lambda>a b. a @ ''/'' @ b),
      isFileSync = (\<lambda>f. f = ''/work/myDriver.js''),
      existsSync = (\<lambda>f. False),
      readFileSync = (\<lambda>f. None),
      require_call = (\<lambda>f. if f = ''/work/myDriver.js''
                           then Inr \<lparr>caps = [], maximized = False, status = Live\<rparr>
                           else Inl (DriverLoadError f)),
      chromedriver_path = ''/bin/chromedriver'',
      geckodriver_path = ''/bin/geckodriver'',
      phantomjs_path = ''/bin/phantomjs''\<rparr>"

text \<open>A world in which one session is live and published.\<close>

definition example_world :: world where
  "example_world =
     \<lparr>driver = JDriver 0, eyes = JUndefined,
      globals = (\<lambda>k. if k = ''driver'' then JDriver 0 else JUndefined),
      sessions = [\<lparr>caps = [(''acceptSslCerts'', CBool True)], maximized = True, status = Live\<rparr>],
      events = []\<rparr>"

text \<open>A page whose \<open>data-busy\<close> stays \<open>true\<close>, polled once a second; one window.\<close>

definition busy_browser :: browser where
  "busy_browser =
     \<lparr>page_at = (\<lambda>t sel. Some (\<lambda>a. if a = ''data-busy'' then Some ''true'' else None)),
      windows_at = (\<lambda>t. Inr [''main'']),
      poll_cost = 999\<rparr>"

text \<open>A second window opens after 2000 ms.\<close>

definition popup_browser :: browser where
  "popup_browser =
     \<lparr>page_at = (\<lambda>t sel. None),
      windows_at = (\<lambda>t. Inr (if t < 2000 then [''main''] else [''main'', ''popup''])),
      poll_cost = 0\<rparr>"

section \<open>createWorld\<close>

lemma createWorld_globals:
  "globals (createWorld c w) =
     (\<lambda>k. if k = ''driver'' then
             (if browserTeardownStrategy c = ''always'' then JNull else globals w ''driver'')
           else case map_of (runtime w) k of Some v \<Rightarrow> v | None \<Rightarrow> globals w k)"
  by (rule ext) (simp add: createWorld_def runtime_def expose_def)

lemma createWorld_driver [simp]: "driver (createWorld c w) = driver w"
  by (simp add: createWorld_def runtime_def expose_def)

lemma createWorld_eyes [simp]: "eyes (createWorld c w) = eyes w"
  by (simp add: createWorld_def runtime_def expose_def)

lemma createWorld_sessions [simp]: "sessions (createWorld c w) = sessions w"
  by (simp add: createWorld_def runtime_def expose_def)

lemma createWorld_events [simp]: "events (createWorld c w) = events w"
  by (simp add: createWorld_def runtime_def expose_def)

text \<open>
  C10. On every call createWorld writes each of the keys \<open>eyes\<close>, \<open>selenium\<close>, \<open>By\<close>,
  \<open>by\<close>, \<open>until\<close>, \<open>expect\<close>, \<open>assert\<close>, \<open>trace\<close>, \<open>page\<close> and \<open>shared\<close> to the global
  object, with the value the \<open>runtime\<close> literal gives it (\<open>page\<close> and \<open>shared\<close> keep a
  truthy old value and become an empty object otherwise); these and \<open>driver\<close> are all the
  keys of \<open>runtime\<close>, and no other global is touched. The key \<open>driver\<close> is skipped when
  the teardown strategy is not \<open>always\<close>, so \<open>global.driver\<close> keeps its value; under
  \<open>always\<close> it is reset to \<open>null\<close>.
\<close>

theorem createWorld_frame:
  "globals (createWorld c w) ''eyes'' = JNull
   \<and> globals (createWorld c w) ''selenium'' = JLib ''selenium''
   \<and> globals (createWorld c w) ''By'' = JLib ''selenium.By''
   \<and> globals (createWorld c w) ''by'' = JLib ''selenium.By''
   \<and> globals (createWorld c w) ''until'' = JLib ''selenium.until''
   \<and> globals (createWorld c w) ''expect'' = JLib ''chai.expect''
   \<and> globals (createWorld c w) ''assert'' = JLib ''chai.assert''
   \<and> globals (createWorld c w) ''trace'' = JLib ''consoleInfo''
   \<and> globals (createWorld c w) ''page'' =
         (if truthy (globals w ''page'') then globals w ''page'' else JObj [])
   \<and> globals (createWorld c w) ''shared'' =
         (if truthy (globals w ''shared'') then globals w ''shared'' else JObj [])
   \<and> map fst (runtime w) =
         [''driver'', ''eyes'', ''selenium'', ''By'', ''by'', ''until'', ''expect'', ''assert'',
          ''trace'', ''page'', ''shared'']
   \<and> (\<forall>k v. (k, v) \<in> set (runtime w) \<and> k \<noteq> ''driver'' \<longrightarrow> globals (createWorld c w) k = v)
   \<and> (\<forall>k. k \<notin> {''driver'', ''eyes'', ''selenium'', ''By'', ''by'', ''until'', ''expect'',
               ''assert'', ''trace'', ''page'', ''shared''} \<longrightarrow>
          globals (createWorld c w) k = globals w k)
   \<and> (browserTeardownStrategy c \<noteq> ''always'' \<longrightarrow>
        globals (createWorld c w) ''driver'' = globals w ''driver'')
   \<and> (browserTeardownStrategy c = ''always'' \<longrightarrow> globals (createWorld c w) ''driver'' = JNull)"
proof -
  have keys: "map fst (runtime w) =
         [''driver'', ''eyes'', ''selenium'', ''By'', ''by'', ''until'', ''expect'', ''assert'',
          ''trace'', ''page'', ''shared'']"
    by (simp add: runtime_def)
  then have dist: "distinct (map fst (runtime w))" by simp
  have a: "globals (createWorld c w) k = v" if "(k, v) \<in> set (runtime w)" "k \<noteq> ''driver''" for k v
  proof -
    from dist that(1) have "map_of (runtime w) k = Some v" by (rule map_of_is_SomeI)
    with that(2) show ?thesis by (simp add: createWorld_globals)
  qed
  have b: "globals (createWorld c w) k = globals w k"
    if "k \<notin> {''driver'', ''eyes'', ''selenium'', ''By'', ''by'', ''until'', ''expect'',
               ''assert'', ''trace'', ''page'', ''shared''}" for k
  proof -
    from that keys have "k \<notin> set (map fst (runtime w))" by simp
    then have "map_of (runtime w) k = None" by (simp add: map_of_eq_None_iff)
    moreover from that have "k \<noteq> ''driver''" by simp
    ultimately show ?thesis by (simp add: createWorld_globals)
  qed
  have v: "globals (createWorld c w) ''eyes'' = JNull"
    "globals (createWorld c w) ''selenium'' = JLib ''selenium''"
    "globals (createWorld c w) ''By'' = JLib ''selenium.By''"
    "globals (createWorld c w) ''by'' = JLib ''selenium.By''"
    "globals (createWorld c w) ''until'' = JLib ''selenium.until''"
    "globals (createWorld c w) ''expect'' = JLib ''chai.expect''"
    "globals (createWorld c w) ''assert'' = JLib ''chai.assert''"
    "globals (createWorld c w) ''trace'' = JLib ''consoleInfo''"
    "globals (createWorld c w) ''page'' =
         (if truthy (globals w ''page'') then globals w ''page'' else JObj [])"
    "globals (createWorld c w) ''shared'' =
         (if truthy (globals w ''shared'') then globals w ''shared'' else JObj [])"
    by (simp_all add: createWorld_globals runtime_def js_or_def)
  have d: "browserTeardownStrategy c \<noteq> ''always'' \<longrightarrow>
        globals (createWorld c w) ''driver'' = globals w ''driver''"
    "browserTeardownStrategy c = ''always'' \<longrightarrow> globals (createWorld c w) ''driver'' = JNull"
    by (simp_all add: createWorld_globals)
  from a have a': "\<forall>k v. (k, v) \<in> set (runtime w) \<and> k \<noteq> ''driver'' \<longrightarrow>
      globals (createWorld c w) k = v"
    by blast
  from b have b': "\<forall>k. k \<notin> {''driver'', ''eyes'', ''selenium'', ''By'', ''by'', ''until'',
      ''expect'', ''assert'', ''trace'', ''page'', ''shared''} \<longrightarrow>
          globals (createWorld c w) k = globals w k"
    by blast
  show ?thesis
    by (intro conjI v keys a' b' d)
qed

text \<open>
  C10 at a world with a live published driver and a page container already loaded,
  under both strategies: every key, and a global that is not a key.
\<close>

theorem createWorld_frame_witness:
  "browserTeardownStrategy example_config \<noteq> ''always''
   \<and> globals (createWorld example_config example_world) ''driver'' = JDriver 0
   \<and> globals (createWorld example_config example_world) ''eyes'' = JNull
   \<and> globals (createWorld example_config example_world) ''selenium'' = JLib ''selenium''
   \<and> globals (createWorld example_config example_world) ''By'' = JLib ''selenium.By''
   \<and> globals (createWorld example_config example_world) ''by'' = JLib ''selenium.By''
   \<and> globals (createWorld example_config example_world) ''until'' = JLib ''selenium.until''
   \<and> globals (createWorld example_config example_world) ''expect'' = JLib ''chai.expect''
   \<and> globals (createWorld example_config example_world) ''assert'' = JLib ''chai.assert''
   \<and> globals (createWorld example_config example_world) ''trace'' = JLib ''consoleInfo''
   \<and> globals (createWorld example_config example_world) ''page'' = JObj []
   \<and> globals (createWorld example_config example_world) ''shared'' = JObj []
   \<and> globals (createWorld example_config
         (example_world\<lparr>globals := (globals example_world)(''page'' := JObj [''login''])\<rparr>))
         ''page'' = JObj [''login'']
   \<and> (''until'', JLib ''selenium.until'') \<in> set (runtime example_world)
   \<and> ''helpers'' \<notin> {''driver'', ''eyes'', ''selenium'', ''By'', ''by'', ''until'', ''expect'',
               ''assert'', ''trace'', ''page'', ''shared''}
   \<and> globals (createWorld example_config example_world) ''helpers'' = JUndefined
   \<and> browserTeardownStrategy (example_config\<lparr>browserTeardownStrategy := ''always''\<rparr>) = ''always''
   \<and> globals (createWorld (example_config\<lparr>browserTeardownStrategy := ''always''\<rparr>) example_world)
        ''driver'' = JNull"
  using createWorld_frame [of example_config example_world]
    createWorld_frame [of example_config
      "example_world\<lparr>globals := (globals example_world)(''page'' := JObj [''login''])\<rparr>"]
    createWorld_frame [of "example_config\<lparr>browserTeardownStrategy := ''always''\<rparr>" example_world]
  by (simp add: example_config_def example_world_def runtime_def)

section \<open>The driver factories\<close>

lemma ChromeDriver_session:
  "fst (ChromeDriver e w) = length (sessions w) \<and>
   sessions (snd (ChromeDriver e w)) = sessions w @
     [\<lparr>caps = [(''browserName'', CStr ''chrome''),
         (''javascriptEnabled'', CBool True),
         (''acceptSslCerts'', CBool True),
         (''chromeOptions'', CObj [(''args'', CArgs [''start-maximized'', ''disable-extensions''])]),
         (''path'', CStr (chromedriver_path e))], maximized = True, status = Live\<rparr>]"
  by (simp add: ChromeDriver_def build_def maximize_def emit_def)

lemma FireFoxDriver_session:
  "fst (FireFoxDriver e w) = length (sessions w) \<and>
   sessions (snd (FireFoxDriver e w)) = sessions w @
     [\<lparr>caps = [(''browserName'', CStr ''firefox''),
         (''javascriptEnabled'', CBool True),
         (''acceptSslCerts'', CBool True),
         (''webdriver.firefox.bin'', CStr (geckodriver_path e))], maximized = True, status = Live\<rparr>]"
  by (simp add: FireFoxDriver_def build_def maximize_def emit_def)

lemma PhantomJSDriver_session:
  "fst (PhantomJSDriver e w) = length (sessions w) \<and>
   sessions (snd (PhantomJSDriver e w)) = sessions w @
     [\<lparr>caps = [(''browserName'', CStr ''phantomjs''),
         (''javascriptEnabled'', CBool True),
         (''acceptSslCerts'', CBool True),
         (''phantomjs.binary.path'', CStr (phantomjs_path e)),
         (''phantomjs.cli.args'', CStr ''--ignore-ssl-errors=true'')], maximized = True, status = Live\<rparr>]"
  by (simp add: PhantomJSDriver_def build_def maximize_def emit_def)

lemma ElectronDriver_session:
  "fst (ElectronDriver e w) = length (sessions w) \<and>
   sessions (snd (ElectronDriver e w)) = sessions w @
     [\<lparr>caps = [(''browserName'', CStr ''electron''),
         (''chromeOptions'',
           CObj [(''binary'', CStr (path_resolve e (cwd e) ''MyApp.app/Contents/MacOS/MyApp''))])],
       maximized = False, status = Live\<rparr>]"
  by (simp add: ElectronDriver_def build_def forBrowser_def emit_def)



section \<open>getDriverInstance\<close>

text \<open>
  C5. For a browser identifier outside the named set: when the resolved path is not a
  file, getDriverInstance throws the error naming that path; when it is a file, the
  module at that path is required and called without arguments, and the driver it
  returns becomes \<open>driver\<close> and \<open>global.driver\<close> (an exception of the module itself
  propagates).
\<close>

theorem getDriverInstance_custom:
  assumes "browserName c \<notin> {''firefox'', ''phantomjs'', ''electron'', ''chrome''}"
  shows "(\<not> isFileSync e (path_resolve e (cwd e) (browserName c)) \<longrightarrow>
            getDriverInstance c e w =
              Inl (UnknownDriverError (''Could not find driver file: '' @
                                        path_resolve e (cwd e) (browserName c))))
       \<and> (isFileSync e (path_resolve e (cwd e) (browserName c)) \<longrightarrow>
            getDriverInstance c e w =
              (case require_call e (path_resolve e (cwd e) (browserName c)) of
                 Inl err \<Rightarrow> Inl err
               | Inr s \<Rightarrow>
                   Inr (JDriver (length (sessions w)),
                        w\<lparr>driver := JDriver (length (sessions w)),
                          globals := (globals w)(''driver'' := JDriver (length (sessions w))),
                          sessions := sessions w @ [s],
                          events := events w @ [Require (path_resolve e (cwd e) (browserName c))]\<rparr>)))"
  using assms
  by (simp add: getDriverInstance_def Let_def publish_def install_def emit_def split: sum.splits)

text \<open>C5 for the identifiers \<open>opera\<close> (no such file) and \<open>myDriver.js\<close> (a file).\<close>

theorem getDriverInstance_custom_witness:
  "browserName (example_config\<lparr>browserName := ''opera''\<rparr>)
      \<notin> {''firefox'', ''phantomjs'', ''electron'', ''chrome''}
   \<and> \<not> isFileSync example_env ''/work/opera''
   \<and> getDriverInstance (example_config\<lparr>browserName := ''opera''\<rparr>) example_env initial_world
       = Inl (UnknownDriverError ''Could not find driver file: /work/opera'')
   \<and> browserName (example_config\<lparr>browserName := ''myDriver.js''\<rparr>)
      \<notin> {''firefox'', ''phantomjs'', ''electron'', ''chrome''}
   \<and> isFileSync example_env ''/work/myDriver.js''
   \<and> getDriverInstance (example_config\<lparr>browserName := ''myDriver.js''\<rparr>) example_env initial_world
       = Inr (JDriver 0,
              \<lparr>driver = JDriver 0, eyes = JUndefined,
               globals = (\<lambda>k. JUndefined)(''driver'' := JDriver 0),
               sessions = [\<lparr>caps = [], maximized = False, status = Live\<rparr>],
               events = [Require ''/work/myDriver.js'']\<rparr>)"
  using getDriverInstance_custom [of "example_config\<lparr>browserName := ''opera''\<rparr>" example_env initial_world]
    getDriverInstance_custom [of "example_config\<lparr>browserName := ''myDriver.js''\<rparr>" example_env initial_world]
  by (simp add: example_config_def example_env_def initial_world_def)

section \<open>The After hook\<close>

lemma emit_simps [simp]:
  "events (emit es w) = events w @ es"
  "sessions (emit es w) = sessions w"
  "driver (emit es w) = driver w"
  "eyes (emit es w) = eyes w"
  "globals (emit es w) = globals w"
  by (simp_all add: emit_def)

lemma emit_emit: "emit es2 (emit es1 w) = emit (es1 @ es2) w"
  by (simp add: emit_def)

lemma is_live_emit [simp]: "is_live (emit es w) h = is_live w h"
  by (simp add: is_live_def)

lemma set_status_simps [simp]:
  "events (set_status h st w) = events w"
  "driver (set_status h st w) = driver w"
  "eyes (set_status h st w) = eyes w"
  "globals (set_status h st w) = globals w"
  "length (sessions (set_status h st w)) = length (sessions w)"
  by (simp_all add: set_status_def)

lemma is_live_set_status:
  "is_live (set_status h st w) h = (h < length (sessions w) \<and> st = Live)"
  by (auto simp: is_live_def set_status_def)

lemma published_append [simp]: "published (xs @ ys) = published xs @ published ys"
  by (induction xs rule: published.induct) simp_all

lemma clearCookiesAndStorages_driver:
  "globals w ''driver'' = JDriver h \<Longrightarrow>
   clearCookiesAndStorages w = Inr (emit [DeleteAllCookies h, ClearStorages h] w)"
  by (simp add: clearCookiesAndStorages_def clearCookies_def clearStorages_def emit_emit)

lemma clearCookiesAndStorages_Inr:
  "clearCookiesAndStorages w = Inr w' \<Longrightarrow> \<exists>h. globals w ''driver'' = JDriver h"
  by (cases "globals w ''driver''")
     (simp_all add: clearCookiesAndStorages_def clearCookies_def)

lemma After_published:
  assumes "globals w ''driver'' = JDriver h"
  shows "After c failed w =
     (if failed \<and> \<not> noScreenshot c then
        (if is_live w h then
           Inr (emit ([TakeScreenshot h, Attach h ''image/png'',
                       DeleteAllCookies h, ClearStorages h,
                       DeleteAllCookies h, ClearStorages h]
                      @ (if truthy (eyes w) then [EyesAbort] else [])) w)
         else Inl (SessionError h))
      else Inr (emit [DeleteAllCookies h, ClearStorages h] w))"
  using assms
  by (simp add: After_def teardownBrowser_def clearCookiesAndStorages_driver emit_emit)

lemma After_Inr:
  assumes "After c failed w = Inr w'"
  shows "\<exists>h. globals w ''driver'' = JDriver h"
proof (cases "globals w ''driver''")
  case (JDriver h)
  then show ?thesis by simp
qed (use assms in \<open>auto simp: After_def teardownBrowser_def clearCookiesAndStorages_def
      clearCookies_def split: if_splits\<close>)

text \<open>
  C4. With the published driver \<open>h\<close> live, the After hook of a failed scenario (screenshots
  not disabled) takes the screenshot and attaches it first, and only then clears cookies
  and storages (once itself, once in teardownBrowser); nothing is closed or quit and the
  session is still live afterwards. Otherwise (passed, or screenshots disabled) the only
  events are the clearing of cookies and storages. A screenshot is never taken from a
  session that is not live: the hook is rejected instead.
\<close>

theorem After_hook_order:
  assumes "globals w ''driver'' = JDriver h"
  shows "(is_live w h \<longrightarrow>
           (\<exists>w'. After c failed w = Inr w' \<and> sessions w' = sessions w \<and> is_live w' h \<and>
              events w' = events w @
                (if failed \<and> \<not> noScreenshot c
                 then [TakeScreenshot h, Attach h ''image/png'',
                       DeleteAllCookies h, ClearStorages h,
                       DeleteAllCookies h, ClearStorages h]
                      @ (if truthy (eyes w) then [EyesAbort] else [])
                 else [DeleteAllCookies h, ClearStorages h])))
       \<and> (failed \<and> \<not> noScreenshot c \<and> \<not> is_live w h \<longrightarrow>
            After c failed w = Inl (SessionError h))"
  using assms by (simp add: After_published)

lemma example_world_global: "globals example_world ''driver'' = JDriver 0"
  by (simp add: example_world_def)

lemma example_world_is_live: "is_live example_world 0"
  by (simp add: example_world_def is_live_def)

lemma example_world_driver: "driver example_world = JDriver 0"
  by (simp add: example_world_def)

text \<open>C4 for a failed and a passed scenario on a live session, and on a quit one.\<close>

theorem After_hook_order_witness:
  "globals example_world ''driver'' = JDriver 0 \<and> is_live example_world 0
   \<and> (\<exists>w'. After example_config True example_world = Inr w' \<and>
        events w' = [TakeScreenshot 0, Attach 0 ''image/png'',
                     DeleteAllCookies 0, ClearStorages 0,
                     DeleteAllCookies 0, ClearStorages 0])
   \<and> (\<exists>w'. After example_config False example_world = Inr w' \<and>
        events w' = [DeleteAllCookies 0, ClearStorages 0])
   \<and> \<not> is_live (set_status 0 Quitted example_world) 0
   \<and> After example_config True (set_status 0 Quitted example_world) = Inl (SessionError 0)"
proof -
  have q: "globals (set_status 0 Quitted example_world) ''driver'' = JDriver 0"
    by (simp add: example_world_global)
  have nl: "\<not> is_live (set_status 0 Quitted example_world) 0"
    by (simp add: is_live_set_status)
  have c: "\<not> noScreenshot example_config" "eyes example_world = JUndefined"
    "events example_world = []"
    by (simp_all add: example_config_def example_world_def)
  from After_hook_order [OF example_world_global, of example_config True]
    After_hook_order [OF example_world_global, of example_config False]
    After_hook_order [OF q, of example_config True]
    example_world_global example_world_is_live nl c
  show ?thesis by auto
qed

text \<open>
  C3 as stated fails: after the After hook of a failed scenario the session is still
  live, and no close or quit was sent.
\<close>

theorem failed_scenario_counterexample:
  "After example_config True example_world =
     Inr (emit [TakeScreenshot 0, Attach 0 ''image/png'',
                DeleteAllCookies 0, ClearStorages 0,
                DeleteAllCookies 0, ClearStorages 0] example_world)
   \<and> is_live (emit [TakeScreenshot 0, Attach 0 ''image/png'',
                DeleteAllCookies 0, ClearStorages 0,
                DeleteAllCookies 0, ClearStorages 0] example_world) 0
   \<and> filter is_teardown (events (emit [TakeScreenshot 0, Attach 0 ''image/png'',
                DeleteAllCookies 0, ClearStorages 0,
                DeleteAllCookies 0, ClearStorages 0] example_world)) = []"
  using example_world_global example_world_is_live
  by (simp add: After_published) (simp add: example_config_def example_world_def)

section \<open>Scenarios\<close>

lemma generateReports_Inr:
  assumes "generateReports c e w = Inr w1"
  shows "\<exists>rs. w1 = emit rs w \<and> filter is_teardown rs = [] \<and> published rs = []"
proof (cases "reportsPath c \<noteq> [] \<and> existsSync e (reportsPath c)")
  case True
  with assms show ?thesis
    by (auto simp: generateReports_def Let_def split: option.splits
        intro!: exI [of _ "[GenerateHtmlReport _ _, WriteJUnitReport _]"])
next
  case False
  with assms have "w1 = emit [] w" by (auto simp: generateReports_def Let_def emit_def)
  then show ?thesis by (intro exI [of _ "[]"]) simp
qed

lemma closeBrowser_live:
  assumes "driver w = JDriver h" and "is_live w h"
  shows "\<exists>w'. closeBrowser c w = Inr w' \<and> driver w' = JDriver h
           \<and> length (sessions w') = length (sessions w) \<and> \<not> is_live w' h
           \<and> events w' = events w @ Close h # (if browserName c \<noteq> ''firefox'' then [Quit h] else [])"
  using assms by (simp add: closeBrowser_def Let_def is_live_set_status)

lemma closeBrowser_Inr:
  assumes "closeBrowser c w = Inr w'"
  shows "\<exists>h. driver w = JDriver h \<and> is_live w h"
  using assms by (cases "driver w") (auto simp: closeBrowser_def split: if_splits)

lemma factory_facts:
  "fst (ChromeDriver e w) = length (sessions w)"
  "fst (FireFoxDriver e w) = length (sessions w)"
  "fst (PhantomJSDriver e w) = length (sessions w)"
  "fst (ElectronDriver e w) = length (sessions w)"
  "events (snd (ChromeDriver e w)) = events w @ [Build (length (sessions w)), Maximize (length (sessions w))]"
  "events (snd (FireFoxDriver e w)) = events w @ [Build (length (sessions w)), Maximize (length (sessions w))]"
  "events (snd (PhantomJSDriver e w)) = events w @ [Build (length (sessions w)), Maximize (length (sessions w))]"
  "events (snd (ElectronDriver e w)) = events w @ [Build (length (sessions w))]"
  "eyes (snd (ChromeDriver e w)) = eyes w"
  "eyes (snd (FireFoxDriver e w)) = eyes w"
  "eyes (snd (PhantomJSDriver e w)) = eyes w"
  "eyes (snd (ElectronDriver e w)) = eyes w"
  by (simp_all add: ChromeDriver_def FireFoxDriver_def PhantomJSDriver_def ElectronDriver_def
      build_def maximize_def emit_def)

lemma factory_sessions:
  "length (sessions (snd (ChromeDriver e w))) = Suc (length (sessions w))"
  "length (sessions (snd (FireFoxDriver e w))) = Suc (length (sessions w))"
  "length (sessions (snd (PhantomJSDriver e w))) = Suc (length (sessions w))"
  "length (sessions (snd (ElectronDriver e w))) = Suc (length (sessions w))"
  by (simp_all add: ChromeDriver_session FireFoxDriver_session PhantomJSDriver_session
      ElectronDriver_session)

lemma publish_Inr:
  "publish hw = Inr (v, w') \<Longrightarrow>
     v = JDriver (fst hw) \<and> driver w' = v \<and> globals w' ''driver'' = v \<and> eyes w' = eyes (snd hw)
     \<and> sessions w' = sessions (snd hw) \<and> events w' = events (snd hw)"
  by (auto simp: publish_def)

lemma getDriverInstance_Inr:
  assumes "getDriverInstance c e w = Inr (v, w')"
  shows "v = JDriver (length (sessions w)) \<and> driver w' = v \<and> globals w' ''driver'' = v
         \<and> eyes w' = eyes w \<and> length (sessions w') = Suc (length (sessions w))
         \<and> (\<exists>ce. events w' = events w @ ce \<and> published ce = [] \<and> filter is_teardown ce = [])"
proof -
  consider (ff) "browserName c = ''firefox''" | (ph) "browserName c = ''phantomjs''"
    | (el) "browserName c = ''electron''" | (ch) "browserName c = ''chrome''"
    | (custom) "browserName c \<notin> {''firefox'', ''phantomjs'', ''electron'', ''chrome''}"
    by auto
  then show ?thesis
  proof cases
    case ff
    with assms have "publish (FireFoxDriver e w) = Inr (v, w')" by (simp add: getDriverInstance_def)
    from publish_Inr [OF this] show ?thesis by (simp add: factory_facts factory_sessions)
  next
    case ph
    with assms have "publish (PhantomJSDriver e w) = Inr (v, w')" by (simp add: getDriverInstance_def)
    from publish_Inr [OF this] show ?thesis by (simp add: factory_facts factory_sessions)
  next
    case el
    with assms have "publish (ElectronDriver e w) = Inr (v, w')" by (simp add: getDriverInstance_def)
    from publish_Inr [OF this] show ?thesis by (simp add: factory_facts factory_sessions)
  next
    case ch
    with assms have "publish (ChromeDriver e w) = Inr (v, w')" by (simp add: getDriverInstance_def)
    from publish_Inr [OF this] show ?thesis by (simp add: factory_facts factory_sessions)
  next
    case custom
    let ?f = "path_resolve e (cwd e) (browserName c)"
    from custom assms obtain s where
      "publish (install s (emit [Require ?f] w)) = Inr (v, w')"
      by (auto simp: getDriverInstance_def Let_def split: if_splits sum.splits)
    from publish_Inr [OF this] show ?thesis by (simp add: install_def)
  qed
qed

lemma BeforeScenario_reuse:
  "driver w = JDriver h \<Longrightarrow>
   BeforeScenario c e w = Inr (w\<lparr>globals := (globals w)(''driver'' := JDriver h)\<rparr>)"
  by (simp add: BeforeScenario_def)

lemma BeforeScenario_create:
  assumes "\<not> truthy (driver w)" and "BeforeScenario c e w = Inr w'"
  shows "driver w' = JDriver (length (sessions w)) \<and> globals w' ''driver'' = JDriver (length (sessions w))
         \<and> eyes w' = eyes w \<and> length (sessions w') = Suc (length (sessions w))
         \<and> (\<exists>ce. events w' = events w @ ce \<and> published ce = [] \<and> filter is_teardown ce = [])"
proof -
  from assms obtain v w1 where g: "getDriverInstance c e w = Inr (v, w1)"
    and w': "w' = w1\<lparr>globals := (globals w1)(''driver'' := v)\<rparr>"
    by (auto simp: BeforeScenario_def split: sum.splits)
  from getDriverInstance_Inr [OF g] w' show ?thesis by simp
qed

text \<open>One scenario with a driver already there.\<close>

lemma scenario_reuse:
  assumes "driver w = JDriver h" and "scenario c e failed w = Inr w'"
  shows "driver w' = JDriver h \<and> sessions w' = sessions w \<and> eyes w' = eyes w
         \<and> (\<exists>es. events w' = events w @ es \<and> published es = [JDriver h]
                  \<and> filter is_teardown es = [])"
proof -
  let ?w1 = "(createWorld c w)\<lparr>globals := (globals (createWorld c w))(''driver'' := JDriver h)\<rparr>"
  let ?w2 = "emit [ScenarioSteps (JDriver h)] ?w1"
  from assms(1) have b: "BeforeScenario c e (createWorld c w) = Inr ?w1"
    by (simp add: BeforeScenario_reuse)
  with assms(2) have a: "After c failed ?w2 = Inr w'"
    by (simp add: scenario_def)
  have g: "globals ?w2 ''driver'' = JDriver h" by simp
  from a show ?thesis
    unfolding After_published [OF g]
    using assms(1) by (auto split: if_splits)
qed

text \<open>One scenario with no driver yet.\<close>

lemma scenario_create:
  assumes "\<not> truthy (driver w)" and "scenario c e failed w = Inr w'"
  shows "driver w' = JDriver (length (sessions w))
         \<and> length (sessions w') = Suc (length (sessions w)) \<and> eyes w' = eyes w
         \<and> (\<exists>es. events w' = events w @ es \<and> published es = [JDriver (length (sessions w))]
                  \<and> filter is_teardown es = [])"
proof -
  let ?h = "length (sessions w)"
  from assms(2) obtain w1 where b: "BeforeScenario c e (createWorld c w) = Inr w1"
    and a: "After c failed (emit [ScenarioSteps (globals w1 ''driver'')] w1) = Inr w'"
    by (auto simp: scenario_def split: sum.splits)
  from assms(1) have "\<not> truthy (driver (createWorld c w))" by simp
  from BeforeScenario_create [OF this b]
  obtain ce where w1: "driver w1 = JDriver ?h" "globals w1 ''driver'' = JDriver ?h"
    "eyes w1 = eyes w" "length (sessions w1) = Suc ?h"
    "events w1 = events w @ ce" "published ce = []" "filter is_teardown ce = []"
    by auto
  let ?w2 = "emit [ScenarioSteps (JDriver ?h)] w1"
  have g: "globals ?w2 ''driver'' = JDriver ?h" using w1(2) by simp
  from a w1(2) have "After c failed ?w2 = Inr w'" by simp
  then show ?thesis
    unfolding After_published [OF g]
    using w1 by (auto split: if_splits)
qed

lemma run_scenarios_reuse:
  assumes "driver w = JDriver h" and "run_scenarios c e outcomes w = Inr w'"
  shows "driver w' = JDriver h \<and> sessions w' = sessions w \<and> eyes w' = eyes w
         \<and> (\<exists>es. events w' = events w @ es
                  \<and> published es = replicate (length outcomes) (JDriver h)
                  \<and> filter is_teardown es = [])"
  using assms
proof (induction outcomes arbitrary: w)
  case Nil
  then show ?case by simp
next
  case (Cons failed rest)
  from Cons.prems(2) obtain w1 where s: "scenario c e failed w = Inr w1"
    and r: "run_scenarios c e rest w1 = Inr w'"
    by (auto split: sum.splits)
  from scenario_reuse [OF Cons.prems(1) s]
  obtain es1 where w1: "driver w1 = JDriver h" "sessions w1 = sessions w" "eyes w1 = eyes w"
    "events w1 = events w @ es1" "published es1 = [JDriver h]" "filter is_teardown es1 = []"
    by auto
  from Cons.IH [OF w1(1) r]
  obtain es2 where w': "driver w' = JDriver h" "sessions w' = sessions w1" "eyes w' = eyes w1"
    "events w' = events w1 @ es2" "published es2 = replicate (length rest) (JDriver h)"
    "filter is_teardown es2 = []"
    by auto
  have "events w' = events w @ (es1 @ es2)" using w1(4) w'(4) by simp
  moreover have "published (es1 @ es2) = replicate (length (failed # rest)) (JDriver h)"
    using w1(5) w'(5) by simp
  moreover have "filter is_teardown (es1 @ es2) = []" using w1(6) w'(6) by simp
  ultimately have "\<exists>es. events w' = events w @ es
      \<and> published es = replicate (length (failed # rest)) (JDriver h)
      \<and> filter is_teardown es = []"
    by blast
  with w1(1-3) w'(1-3) show ?case by simp
qed

lemma run_scenarios_create:
  assumes "\<not> truthy (driver w)" and "outcomes \<noteq> []"
    and "run_scenarios c e outcomes w = Inr w'"
  shows "driver w' = JDriver (length (sessions w))
         \<and> length (sessions w') = Suc (length (sessions w))
         \<and> (\<exists>es. events w' = events w @ es
                  \<and> published es = replicate (length outcomes) (JDriver (length (sessions w)))
                  \<and> filter is_teardown es = [])"
proof -
  let ?h = "length (sessions w)"
  from assms(2) obtain failed rest where o: "outcomes = failed # rest" by (cases outcomes) auto
  with assms(3) obtain w1 where s: "scenario c e failed w = Inr w1"
    and r: "run_scenarios c e rest w1 = Inr w'"
    by (auto split: sum.splits)
  from scenario_create [OF assms(1) s]
  obtain es1 where w1: "driver w1 = JDriver ?h" "length (sessions w1) = Suc ?h"
    "events w1 = events w @ es1" "published es1 = [JDriver ?h]" "filter is_teardown es1 = []"
    by auto
  from run_scenarios_reuse [OF w1(1) r]
  obtain es2 where w': "driver w' = JDriver ?h" "sessions w' = sessions w1"
    "events w' = events w1 @ es2" "published es2 = replicate (length rest) (JDriver ?h)"
    "filter is_teardown es2 = []"
    by auto
  have "events w' = events w @ (es1 @ es2)" using w1(3) w'(3) by simp
  moreover have "published (es1 @ es2) = replicate (length outcomes) (JDriver ?h)"
    using w1(4) w'(4) o by simp
  moreover have "filter is_teardown (es1 @ es2) = []" using w1(5) w'(5) by simp
  ultimately have "\<exists>es. events w' = events w @ es
      \<and> published es = replicate (length outcomes) (JDriver ?h)
      \<and> filter is_teardown es = []"
    by blast
  with w1(1,2) w'(1,2) show ?thesis by simp
qed

lemma scenario_no_teardown:
  assumes "scenario c e failed w = Inr w'"
  shows "filter is_teardown (events w') = filter is_teardown (events w)"
proof (cases "truthy (driver w)")
  case False
  from scenario_create [OF False assms] show ?thesis by auto
next
  case True
  show ?thesis
  proof (cases "driver w")
    case (JDriver h)
    from scenario_reuse [OF JDriver assms] show ?thesis by auto
  next
    case (JLib x)
    with assms have "After c failed (emit [ScenarioSteps (JLib x)]
        ((createWorld c w)\<lparr>globals := (globals (createWorld c w))(''driver'' := JLib x)\<rparr>)) = Inr w'"
      by (simp add: scenario_def BeforeScenario_def)
    from After_Inr [OF this] show ?thesis by simp
  next
    case (JObj x)
    with assms have "After c failed (emit [ScenarioSteps (JObj x)]
        ((createWorld c w)\<lparr>globals := (globals (createWorld c w))(''driver'' := JObj x)\<rparr>)) = Inr w'"
      by (simp add: scenario_def BeforeScenario_def)
    from After_Inr [OF this] show ?thesis by simp
  qed (use True in simp_all)
qed

section \<open>AfterFeatures\<close>

lemma AfterFeatures_live:
  assumes "generateReports c e w = Inr wr" and "driver w = JDriver h" and "is_live w h"
  shows "\<exists>w'. AfterFeatures c e w = Inr w' \<and> driver w' = JDriver h
           \<and> length (sessions w') = length (sessions w)
           \<and> (is_live w' h \<longleftrightarrow> browserTeardownStrategy c = ''always'')
           \<and> events w' = events wr @
               (if browserTeardownStrategy c \<noteq> ''always''
                then Close h # (if browserName c \<noteq> ''firefox'' then [Quit h] else [])
                else []) @ [Done]"
proof -
  from generateReports_Inr [OF assms(1)] obtain rs where wr: "wr = emit rs w" by blast
  with assms(2,3) have d: "driver wr = JDriver h" and l: "is_live wr h" by simp_all
  show ?thesis
  proof (cases "browserTeardownStrategy c = ''always''")
    case True
    with assms(1) l d wr show ?thesis by (simp add: AfterFeatures_def)
  next
    case False
    from closeBrowser_live [OF d l, of c] obtain w2 where
      "closeBrowser c wr = Inr w2" "driver w2 = JDriver h"
      "length (sessions w2) = length (sessions wr)" "\<not> is_live w2 h"
      "events w2 = events wr @ Close h # (if browserName c \<noteq> ''firefox'' then [Quit h] else [])"
      by blast
    with False assms(1) wr show ?thesis by (simp add: AfterFeatures_def is_live_def)
  qed
qed

text \<open>
  C2. In AfterFeatures, once the report block has not thrown and with the module's
  driver \<open>h\<close> live: under a strategy other than \<open>always\<close> the hook sends close, then quit
  unless the browser is firefox, then calls done, and the session is no longer live;
  under \<open>always\<close> it only calls done and the session stays live. The report block,
  createWorld and a whole scenario (BeforeScenario, steps, After) send no close and no
  quit.
\<close>

theorem final_teardown:
  assumes "generateReports c e w = Inr wr" and "driver w = JDriver h" and "is_live w h"
  shows "(\<exists>w'. AfterFeatures c e w = Inr w'
            \<and> (is_live w' h \<longleftrightarrow> browserTeardownStrategy c = ''always'')
            \<and> events w' = events wr @
                (if browserTeardownStrategy c \<noteq> ''always''
                 then Close h # (if browserName c \<noteq> ''firefox'' then [Quit h] else [])
                 else []) @ [Done])
         \<and> filter is_teardown (events wr) = filter is_teardown (events w)
         \<and> filter is_teardown (events (createWorld c w)) = filter is_teardown (events w)
         \<and> (\<forall>failed w0 w1. scenario c e failed w0 = Inr w1 \<longrightarrow>
               filter is_teardown (events w1) = filter is_teardown (events w0))"
proof -
  from AfterFeatures_live [OF assms] have a: "\<exists>w'. AfterFeatures c e w = Inr w'
            \<and> (is_live w' h \<longleftrightarrow> browserTeardownStrategy c = ''always'')
            \<and> events w' = events wr @
                (if browserTeardownStrategy c \<noteq> ''always''
                 then Close h # (if browserName c \<noteq> ''firefox'' then [Quit h] else [])
                 else []) @ [Done]"
    by blast
  from generateReports_Inr [OF assms(1)]
  have b: "filter is_teardown (events wr) = filter is_teardown (events w)" by auto
  from a b show ?thesis by (simp add: scenario_no_teardown)
qed

lemma example_reports: "generateReports c example_env w = Inr w"
  by (simp add: generateReports_def example_env_def)

text \<open>C2 for chrome, for firefox, and under the strategy \<open>always\<close>.\<close>

theorem final_teardown_witness:
  "generateReports example_config example_env example_world = Inr example_world
   \<and> driver example_world = JDriver 0 \<and> is_live example_world 0
   \<and> (\<exists>w'. AfterFeatures example_config example_env example_world = Inr w'
          \<and> \<not> is_live w' 0 \<and> events w' = [Close 0, Quit 0, Done])
   \<and> (\<exists>w'. AfterFeatures (example_config\<lparr>browserName := ''firefox''\<rparr>) example_env example_world
            = Inr w'
          \<and> \<not> is_live w' 0 \<and> events w' = [Close 0, Done])
   \<and> (\<exists>w'. AfterFeatures (example_config\<lparr>browserTeardownStrategy := ''always''\<rparr>) example_env
            example_world = Inr w'
          \<and> is_live w' 0 \<and> events w' = [Done])"
  using final_teardown [OF example_reports example_world_driver example_world_is_live,
      of example_config]
    final_teardown [OF example_reports example_world_driver example_world_is_live,
      of "example_config\<lparr>browserName := ''firefox''\<rparr>"]
    final_teardown [OF example_reports example_world_driver example_world_is_live,
      of "example_config\<lparr>browserTeardownStrategy := ''always''\<rparr>"]
    example_reports example_world_driver example_world_is_live
  by (simp add: example_config_def) (simp add: example_world_def)

text \<open>
  C3, amended. The After hook, of a failed scenario or a passed one, leaves every
  session and the module's driver as they are and sends no close or quit. Under a
  strategy other than \<open>always\<close> the live session is destroyed in AfterFeatures, by one
  close.
\<close>

theorem failed_scenario_keeps_session:
  "(\<forall>failed w'. After c failed w = Inr w' \<longrightarrow>
       sessions w' = sessions w \<and> driver w' = driver w
       \<and> filter is_teardown (events w') = filter is_teardown (events w))
   \<and> (browserTeardownStrategy c \<noteq> ''always'' \<and> driver w = JDriver h \<and> is_live w h
       \<and> generateReports c e w = Inr wr \<longrightarrow>
       (\<exists>w'. AfterFeatures c e w = Inr w' \<and> \<not> is_live w' h
          \<and> filter is_close (events w') = filter is_close (events w) @ [Close h]))"
proof -
  have p1: "sessions w' = sessions w \<and> driver w' = driver w
       \<and> filter is_teardown (events w') = filter is_teardown (events w)"
    if a: "After c failed w = Inr w'" for failed w'
  proof -
    from After_Inr [OF a] obtain g where g: "globals w ''driver'' = JDriver g" by blast
    from a show ?thesis
      unfolding After_published [OF g] by (auto split: if_splits)
  qed
  have p2: "\<exists>w'. AfterFeatures c e w = Inr w' \<and> \<not> is_live w' h
          \<and> filter is_close (events w') = filter is_close (events w) @ [Close h]"
    if a: "browserTeardownStrategy c \<noteq> ''always'' \<and> driver w = JDriver h \<and> is_live w h
       \<and> generateReports c e w = Inr wr"
  proof -
    from a have r: "generateReports c e w = Inr wr" and d: "driver w = JDriver h"
      and l: "is_live w h"
      by simp_all
    from generateReports_Inr [OF r] obtain rs where rs: "wr = emit rs w" "filter is_teardown rs = []"
      by blast
    have "filter is_close rs = filter is_close (filter is_teardown rs)"
      by (induction rs rule: published.induct) auto
    with rs(2) have "filter is_close rs = []" by simp
    with AfterFeatures_live [OF r d l] a rs(1) show ?thesis by auto
  qed
  from p1 p2 show ?thesis by blast
qed

text \<open>C3, amended, on a world with one live session.\<close>

theorem failed_scenario_keeps_session_witness:
  "(\<exists>w'. After example_config True example_world = Inr w' \<and> sessions w' = sessions example_world)
   \<and> browserTeardownStrategy example_config \<noteq> ''always'' \<and> driver example_world = JDriver 0
   \<and> is_live example_world 0
   \<and> generateReports example_config example_env example_world = Inr example_world
   \<and> (\<exists>w'. AfterFeatures example_config example_env example_world = Inr w' \<and> \<not> is_live w' 0
          \<and> filter is_close (events w') = [Close 0])"
proof -
  have g: "globals example_world ''driver'' = JDriver 0" by (simp add: example_world_def)
  have "\<exists>w'. After example_config True example_world = Inr w'"
    by (simp add: After_published [OF g] example_world_is_live)
  moreover have s: "browserTeardownStrategy example_config \<noteq> ''always''"
    by (simp add: example_config_def)
  moreover have "events example_world = []" by (simp add: example_world_def)
  ultimately show ?thesis
    using failed_scenario_keeps_session [of example_config example_world 0 example_env example_world]
      example_reports [of example_config example_world] example_world_driver example_world_is_live
    by auto
qed

lemma AfterFeatures_Inr:
  assumes "browserTeardownStrategy c \<noteq> ''always''" and "AfterFeatures c e w = Inr w'"
  shows "\<exists>wr h. generateReports c e w = Inr wr \<and> driver w = JDriver h \<and> is_live w h"
proof -
  from assms obtain wr w2 where r: "generateReports c e w = Inr wr"
    and cl: "closeBrowser c wr = Inr w2"
    by (auto simp: AfterFeatures_def split: sum.splits)
  from generateReports_Inr [OF r] obtain rs where "wr = emit rs w" by blast
  with closeBrowser_Inr [OF cl] r show ?thesis by auto
qed

section \<open>A whole run\<close>

text \<open>
  C1. Under a strategy other than \<open>always\<close>, in a run of at least one scenario that
  starts without a driver and completes: one session is created, before the first
  scenario; the steps of every scenario run with that same driver object as
  \<open>global.driver\<close>; no close or quit is sent before the scenarios are over; then
  AfterFeatures closes it (and quits it unless the browser is firefox), once, and it is
  no longer live. BeforeScenario with a driver already there creates nothing and
  publishes that driver again.
\<close>

theorem session_reused_and_closed_once:
  assumes "browserTeardownStrategy c \<noteq> ''always''" and "\<not> truthy (driver w0)"
    and "outcomes \<noteq> []" and "run c e outcomes w0 = Inr w'"
  shows "driver w' = JDriver (length (sessions w0))
       \<and> length (sessions w') = Suc (length (sessions w0))
       \<and> \<not> is_live w' (length (sessions w0))
       \<and> (\<exists>pre. events w' = events w0 @ pre @
                   Close (length (sessions w0)) #
                   (if browserName c \<noteq> ''firefox'' then [Quit (length (sessions w0))] else []) @ [Done]
                 \<and> published pre = replicate (length outcomes) (JDriver (length (sessions w0)))
                 \<and> filter is_teardown pre = [])
       \<and> (\<forall>w h. driver w = JDriver h \<longrightarrow>
             BeforeScenario c e w = Inr (w\<lparr>globals := (globals w)(''driver'' := JDriver h)\<rparr>))"
proof -
  let ?h = "length (sessions w0)"
  from assms(4) obtain w1 where rs: "run_scenarios c e outcomes (createWorld c w0) = Inr w1"
    and af: "AfterFeatures c e w1 = Inr w'"
    by (auto simp: run_def split: sum.splits)
  from assms(2) have "\<not> truthy (driver (createWorld c w0))" by simp
  from run_scenarios_create [OF this assms(3) rs]
  obtain es where w1: "driver w1 = JDriver ?h" "length (sessions w1) = Suc ?h"
    "events w1 = events w0 @ es" "published es = replicate (length outcomes) (JDriver ?h)"
    "filter is_teardown es = []"
    by auto
  from AfterFeatures_Inr [OF assms(1) af] w1(1)
  obtain wr where r: "generateReports c e w1 = Inr wr" and l: "is_live w1 ?h"
    by auto
  from generateReports_Inr [OF r] obtain rp where rp: "wr = emit rp w1"
    "filter is_teardown rp = []" "published rp = []"
    by blast
  from AfterFeatures_live [OF r w1(1) l] af assms(1)
  have w': "driver w' = JDriver ?h" "length (sessions w') = length (sessions w1)"
    "\<not> is_live w' ?h"
    "events w' = events wr @ Close ?h # (if browserName c \<noteq> ''firefox'' then [Quit ?h] else []) @ [Done]"
    by auto
  have "events w' = events w0 @ (es @ rp) @
      Close ?h # (if browserName c \<noteq> ''firefox'' then [Quit ?h] else []) @ [Done]"
    using w'(4) rp(1) w1(3) by simp
  moreover have "published (es @ rp) = replicate (length outcomes) (JDriver ?h)"
    using w1(4) rp(3) by simp
  moreover have "filter is_teardown (es @ rp) = []"
    using w1(5) rp(2) by simp
  ultimately have "\<exists>pre. events w' = events w0 @ pre @
                   Close ?h # (if browserName c \<noteq> ''firefox'' then [Quit ?h] else []) @ [Done]
                 \<and> published pre = replicate (length outcomes) (JDriver ?h)
                 \<and> filter is_teardown pre = []"
    by blast
  with w'(1-3) w1(2) show ?thesis by (simp add: BeforeScenario_reuse)
qed

lemma example_run_returns:
  "\<exists>w'. run example_config example_env [False, True] initial_world = Inr w'"
  by (simp add: run_def scenario_def BeforeScenario_def getDriverInstance_def publish_def
      ChromeDriver_def build_def maximize_def After_def teardownBrowser_def
      clearCookiesAndStorages_def clearCookies_def clearStorages_def AfterFeatures_def
      generateReports_def closeBrowser_def set_status_def is_live_def emit_def
      createWorld_globals example_config_def example_env_def initial_world_def)

text \<open>C1 for a passed and then a failed scenario on chrome.\<close>

theorem session_reused_and_closed_once_witness:
  "browserTeardownStrategy example_config \<noteq> ''always'' \<and> \<not> truthy (driver initial_world)
   \<and> [False, True] \<noteq> []
   \<and> (\<exists>w'. run example_config example_env [False, True] initial_world = Inr w'
          \<and> driver w' = JDriver 0 \<and> length (sessions w') = 1 \<and> \<not> is_live w' 0
          \<and> published (events w') = [JDriver 0, JDriver 0]
          \<and> filter is_teardown (events w') = [Close 0, Quit 0])"
proof -
  have s: "browserTeardownStrategy example_config \<noteq> ''always''"
    and b: "browserName example_config \<noteq> ''firefox''"
    by (simp_all add: example_config_def)
  have d: "\<not> truthy (driver initial_world)" and i: "sessions initial_world = []"
      "events initial_world = []"
    by (simp_all add: initial_world_def)
  have n: "[False, True] \<noteq> []" by simp
  from example_run_returns obtain w' where
    r: "run example_config example_env [False, True] initial_world = Inr w'" ..
  from session_reused_and_closed_once [OF s d n r] b i
  have "driver w' = JDriver 0 \<and> length (sessions w') = 1 \<and> \<not> is_live w' 0
          \<and> published (events w') = [JDriver 0, JDriver 0]
          \<and> filter is_teardown (events w') = [Close 0, Quit 0]"
    by (auto simp: numeral_2_eq_2)
  with r s d show ?thesis by blast
qed

section \<open>The waits\<close>

text \<open>
  C7 as stated fails: a negative \<open>waitInMilliseconds\<close> is truthy, so it becomes the
  timeout as it is.
\<close>

theorem negative_timeout_counterexample:
  "\<not> 0 < wd_timeout (waitUntilAttributeEquals_args example_config ''html'' ''data-busy'' ''false''
                         (Some (- 5)))"
  by (simp add: waitUntilAttributeEquals_args_def num_or_def)

text \<open>
  C7, amended. The three attribute waits and waitForNewWindows use the same timeout:
  DEFAULT_TIMEOUT when the argument is left out (or is 0), the argument itself when it
  is a non-zero number. The timeout is positive whenever the argument is positive, and
  whenever the argument is left out (or 0) and DEFAULT_TIMEOUT is positive.
\<close>

theorem effective_timeout:
  "(let T = wd_timeout (waitUntilAttributeEquals_args c sel a v w) in
      wd_timeout (waitUntilAttributeExists_args c sel a w) = T
    \<and> wd_timeout (waitUntilAttributeDoesNotExists_args c sel a w) = T
    \<and> waitForNewWindows c b w = waitForNewWindows_loop b T 0 0
    \<and> (w = None \<longrightarrow> T = DEFAULT_TIMEOUT c)
    \<and> (w = Some 0 \<longrightarrow> T = DEFAULT_TIMEOUT c)
    \<and> (\<forall>n. w = Some n \<and> n \<noteq> 0 \<longrightarrow> T = n)
    \<and> ((\<exists>n. w = Some n \<and> 0 < n) \<longrightarrow> 0 < T)
    \<and> ((w = None \<or> w = Some 0) \<and> 0 < DEFAULT_TIMEOUT c \<longrightarrow> 0 < T))"
  by (auto simp: waitUntilAttributeEquals_args_def waitUntilAttributeExists_args_def
      waitUntilAttributeDoesNotExists_args_def waitForNewWindows_def num_or_def Let_def)

text \<open>C7, amended, with the argument left out, 3000 and 0.\<close>

theorem effective_timeout_witness:
  "wd_timeout (waitUntilAttributeEquals_args example_config ''html'' ''data-busy'' ''false'' None)
     = 10000
   \<and> wd_timeout (waitUntilAttributeEquals_args example_config ''html'' ''data-busy'' ''false''
        (Some 3000)) = 3000
   \<and> wd_timeout (waitUntilAttributeExists_args example_config ''html'' ''data-busy'' (Some 0))
     = 10000
   \<and> 0 < wd_timeout (waitUntilAttributeDoesNotExists_args example_config ''html'' ''data-busy''
        (Some 3000))
   \<and> 0 < DEFAULT_TIMEOUT example_config
   \<and> 0 < wd_timeout (waitUntilAttributeDoesNotExists_args example_config ''html'' ''data-busy''
        None)"
  using effective_timeout [of example_config "''html''" "''data-busy''" "''false''" None busy_browser]
    effective_timeout [of example_config "''html''" "''data-busy''" "''false''" "Some 3000" busy_browser]
    effective_timeout [of example_config "''html''" "''data-busy''" "''false''" "Some 0" busy_browser]
  by (simp add: Let_def example_config_def)

lemma driver_wait_from_rejected:
  "driver_wait_from b d t = Rejected err \<Longrightarrow>
     err = WaitTimeoutError (wd_message d) \<or> (\<exists>t'. wd_condition d (page_at b t') = Inl err)"
proof (induction b d t rule: driver_wait_from.induct)
  case (1 b d t)
  show ?case
  proof (cases "wd_condition d (page_at b t)")
    case (Inl e)
    with "1.prems" have "e = err" by (simp add: driver_wait_from.simps [of b d t])
    with Inl show ?thesis by blast
  next
    case (Inr ok)
    show ?thesis
    proof (cases "ok \<or> wd_timeout d \<le> t + 1 + int (poll_cost b)")
      case True
      with Inr "1.prems" show ?thesis
        by (auto simp: driver_wait_from.simps [of b d t] split: if_splits)
    next
      case False
      with Inr "1.prems" have "driver_wait_from b d (t + 1 + int (poll_cost b)) = Rejected err"
        by (simp add: driver_wait_from.simps [of b d t])
      with "1.IH" [OF Inr] False show ?thesis by simp
    qed
  qed
qed

lemma map_result_Inl: "map_result f r = Inl err \<Longrightarrow> r = Inl err"
  by (cases r) (simp_all add: map_result_def)

text \<open>
  C8. When waitUntilAttributeEquals, called with a numeric timeout argument, ends in a
  timeout, the message of the failure is the one the helper composed; it contains
  the attribute name, the expected value and the timeout argument in decimal.
\<close>

theorem timeout_message_contents:
  assumes "waitUntilAttributeEquals c b elementSelector attributeName attributeValue (Some n)
             = Rejected (WaitTimeoutError msg)"
  shows "msg = attributeName @ '' does not equal '' @ attributeValue @ '' after '' @
               string_of_int n @ '' milliseconds''
         \<and> sublist attributeName msg \<and> sublist attributeValue msg \<and> sublist (string_of_int n) msg"
proof -
  let ?d = "waitUntilAttributeEquals_args c elementSelector attributeName attributeValue (Some n)"
  from assms have "driver_wait_from b ?d 0 = Rejected (WaitTimeoutError msg)"
    by (simp add: waitUntilAttributeEquals_def driver_wait_def)
  then have "WaitTimeoutError msg = WaitTimeoutError (wd_message ?d)
      \<or> (\<exists>t'. wd_condition ?d (page_at b t') = Inl (WaitTimeoutError msg))"
    by (rule driver_wait_from_rejected)
  moreover have "wd_condition ?d p \<noteq> Inl (WaitTimeoutError msg)" for p
  proof
    assume "wd_condition ?d p = Inl (WaitTimeoutError msg)"
    then have "getAttributeValue p elementSelector attributeName = Inl (WaitTimeoutError msg)"
      by (simp add: waitUntilAttributeEquals_args_def map_result_Inl)
    then show False
      by (simp add: getAttributeValue_def split: option.splits)
  qed
  ultimately have m: "msg = wd_message ?d" by simp
  have m': "wd_message ?d = attributeName @ '' does not equal '' @ attributeValue @ '' after '' @
               string_of_int n @ '' milliseconds''"
    by (simp add: waitUntilAttributeEquals_args_def js_toString_def)
  have s1: "sublist attributeName msg"
    unfolding m m' by (rule sublist_append_rightI)
  have s2: "sublist attributeValue msg"
    unfolding m m' sublist_def
    by (rule exI [of _ "attributeName @ '' does not equal ''"]) auto
  have s3: "sublist (string_of_int n) msg"
    unfolding m m' sublist_def
    by (rule exI [of _ "attributeName @ '' does not equal '' @ attributeValue @ '' after ''"]) auto
  from m m' s1 s2 s3 show ?thesis by simp
qed

lemma string_of_int_3000: "string_of_int 3000 = ''3000''"
  by code_simp

lemma busy_browser_times_out:
  "waitUntilAttributeEquals example_config busy_browser ''html'' ''data-busy'' ''false'' (Some 3000)
     = Rejected (WaitTimeoutError ''data-busy does not equal false after 3000 milliseconds'')"
  by code_simp

text \<open>
  C8 for \<open>waitUntilAttributeEquals('html', 'data-busy', 'false', 3000)\<close> on a page whose
  \<open>data-busy\<close> never changes.
\<close>

theorem timeout_message_contents_witness:
  "waitUntilAttributeEquals example_config busy_browser ''html'' ''data-busy'' ''false'' (Some 3000)
     = Rejected (WaitTimeoutError ''data-busy does not equal false after 3000 milliseconds'')
   \<and> sublist ''data-busy'' ''data-busy does not equal false after 3000 milliseconds''
   \<and> sublist ''false'' ''data-busy does not equal false after 3000 milliseconds''
   \<and> sublist ''3000'' ''data-busy does not equal false after 3000 milliseconds''"
  using timeout_message_contents [OF busy_browser_times_out] busy_browser_times_out
  by (simp add: string_of_int_3000)

lemma waitForNewWindows_loop_none:
  "(\<And>k::nat. i + 1000 * int k < timeout \<Longrightarrow>
       \<exists>ws. windows_at b (clock + 1000 * int k) = Inr ws \<and> length ws \<le> 1)
   \<Longrightarrow> waitForNewWindows_loop b timeout i clock = Inr None"
proof (induction b timeout i clock rule: waitForNewWindows_loop.induct)
  case (1 b timeout i clock)
  show ?case
  proof (cases "i < timeout")
    case False
    then show ?thesis by (simp add: waitForNewWindows_loop.simps [of b timeout i clock])
  next
    case True
    with "1.prems" [of 0] obtain ws where ws: "windows_at b clock = Inr ws" "length ws \<le> 1"
      by auto
    have "waitForNewWindows_loop b timeout (i + 1000) (clock + 1000) = Inr None"
    proof (rule "1.IH" [OF True ws(1)])
      show "\<not> 1 < length ws" using ws(2) by simp
    next
      fix k :: nat
      assume "i + 1000 + 1000 * int k < timeout"
      then have "i + 1000 * int (Suc k) < timeout" by simp
      from "1.prems" [OF this]
      show "\<exists>ws. windows_at b (clock + 1000 + 1000 * int k) = Inr ws \<and> length ws \<le> 1"
        by (simp add: algebra_simps)
    qed
    with True ws show ?thesis
      by (simp add: waitForNewWindows_loop.simps [of b timeout i clock])
  qed
qed

lemma waitForNewWindows_loop_some:
  "i + 1000 * int k < timeout \<Longrightarrow>
   windows_at b (clock + 1000 * int k) = Inr ws \<Longrightarrow> 1 < length ws \<Longrightarrow>
   (\<And>j. j < k \<Longrightarrow> \<exists>ws'. windows_at b (clock + 1000 * int j) = Inr ws' \<and> length ws' \<le> 1)
   \<Longrightarrow> waitForNewWindows_loop b timeout i clock = Inr (Some ws)"
proof (induction k arbitrary: i clock)
  case 0
  then show ?case by (simp add: waitForNewWindows_loop.simps [of b timeout i clock])
next
  case (Suc k)
  from Suc.prems(1) have lt: "i < timeout" by simp
  from Suc.prems(4) [of 0] obtain ws0 where ws0: "windows_at b clock = Inr ws0" "length ws0 \<le> 1"
    by auto
  have "waitForNewWindows_loop b timeout (i + 1000) (clock + 1000) = Inr (Some ws)"
  proof (rule Suc.IH)
    show "i + 1000 + 1000 * int k < timeout" using Suc.prems(1) by simp
    show "windows_at b (clock + 1000 + 1000 * int k) = Inr ws"
      using Suc.prems(2) by (simp add: algebra_simps)
    show "1 < length ws" by (rule Suc.prems(3))
  next
    fix j assume "j < k"
    then have "Suc j < Suc k" by simp
    from Suc.prems(4) [OF this]
    show "\<exists>ws'. windows_at b (clock + 1000 + 1000 * int j) = Inr ws' \<and> length ws' \<le> 1"
      by (simp add: algebra_simps)
  qed
  with lt ws0 show ?case
    by (simp add: waitForNewWindows_loop.simps [of b timeout i clock])
qed

text \<open>
  C6. waitForNewWindows reads the window handles after 0, 1000, 2000, ... ms of
  sleeping, as long as that time is below the timeout. If every such poll finds at most
  one window it resolves with \<open>undefined\<close>, without rejecting; if the poll after
  \<open>1000 * k\<close> ms is the first to find more than one window, it resolves with the whole
  list of that poll.
\<close>

theorem waitForNewWindows_polls:
  "((\<forall>k::nat. 1000 * int k < num_or w (DEFAULT_TIMEOUT c) \<longrightarrow>
        (\<exists>ws. windows_at b (1000 * int k) = Inr ws \<and> length ws \<le> 1))
     \<longrightarrow> waitForNewWindows c b w = Inr None)
   \<and> (1000 * int k < num_or w (DEFAULT_TIMEOUT c)
       \<and> windows_at b (1000 * int k) = Inr ws \<and> 1 < length ws
       \<and> (\<forall>j<k. \<exists>ws'. windows_at b (1000 * int j) = Inr ws' \<and> length ws' \<le> 1)
     \<longrightarrow> waitForNewWindows c b w = Inr (Some ws))"
proof (intro conjI impI)
  assume "\<forall>k::nat. 1000 * int k < num_or w (DEFAULT_TIMEOUT c) \<longrightarrow>
        (\<exists>ws. windows_at b (1000 * int k) = Inr ws \<and> length ws \<le> 1)"
  then show "waitForNewWindows c b w = Inr None"
    unfolding waitForNewWindows_def
    by (intro waitForNewWindows_loop_none) simp
next
  assume a: "1000 * int k < num_or w (DEFAULT_TIMEOUT c)
       \<and> windows_at b (1000 * int k) = Inr ws \<and> 1 < length ws
       \<and> (\<forall>j<k. \<exists>ws'. windows_at b (1000 * int j) = Inr ws' \<and> length ws' \<le> 1)"
  show "waitForNewWindows c b w = Inr (Some ws)"
    unfolding waitForNewWindows_def
    by (rule waitForNewWindows_loop_some [of 0 k _ b 0 ws]) (use a in simp_all)
qed

text \<open>
  C6 for \<open>waitForNewWindows(5000)\<close>: one window throughout, and a second window
  opening at 2000 ms.
\<close>

theorem waitForNewWindows_polls_witness:
  "waitForNewWindows example_config busy_browser (Some 5000) = Inr None
   \<and> 1000 * int 2 < num_or (Some 5000) (DEFAULT_TIMEOUT example_config)
   \<and> windows_at popup_browser (1000 * int 2) = Inr [''main'', ''popup'']
   \<and> waitForNewWindows example_config popup_browser (Some 5000) = Inr (Some [''main'', ''popup''])"
proof -
  have none: "\<forall>k::nat. 1000 * int k < num_or (Some 5000) (DEFAULT_TIMEOUT example_config) \<longrightarrow>
        (\<exists>ws. windows_at busy_browser (1000 * int k) = Inr ws \<and> length ws \<le> 1)"
    by (simp add: busy_browser_def)
  have before: "\<forall>j<2. \<exists>ws'. windows_at popup_browser (1000 * int j) = Inr ws' \<and> length ws' \<le> 1"
    by (simp add: popup_browser_def)
  have at: "windows_at popup_browser (1000 * int 2) = Inr [''main'', ''popup'']"
    by (simp add: popup_browser_def)
  have lt: "1000 * int 2 < num_or (Some 5000) (DEFAULT_TIMEOUT example_config)"
    by (simp add: num_or_def)
  from waitForNewWindows_polls [of "Some 5000" example_config busy_browser 2 "[''main'', ''popup'']"]
    none
  have r1: "waitForNewWindows example_config busy_browser (Some 5000) = Inr None"
    by blast
  from waitForNewWindows_polls [of "Some 5000" example_config popup_browser 2 "[''main'', ''popup'']"]
    before at lt
  have r2: "waitForNewWindows example_config popup_browser (Some 5000) = Inr (Some [''main'', ''popup''])"
    by simp
  from r1 r2 at lt show ?thesis by simp
qed

end
